theory Spec2Isabelle
  imports Main
begin

section \<open>JavaScript values, errors and responses\<close>

text \<open>
  The values that travel through the Express handlers. A response body is the object
  literal handed to \<^verbatim>\<open>res.json\<close>, kept as an ordered list of keys and values.
  \<^verbatim>\<open>JUndefined\<close> is the JavaScript \<^verbatim>\<open>undefined\<close>: a key that holds it
  is not serialised.
\<close>

datatype json =
    JUndefined
  | JNull
  | JBool bool
  | JNum int
  | JStr string
  | JArr "json list"
  | JObj "(string \<times> json) list"

type_synonym obj = "(string \<times> json) list"

text \<open>
  An error object, thrown or returned by the Supabase client: \<^verbatim>\<open>error.name\<close>,
  \<^verbatim>\<open>error.message\<close> (absent on a thrown value that is no \<^verbatim>\<open>Error\<close>) and the
  HTTP status an \<^verbatim>\<open>AuthError\<close> carries (0 for a failed fetch, 502..504 for a gateway
  failure, 4xx for a rejected credential).
\<close>

record js_error =
  name :: string
  message :: "string option"
  code :: "nat option"

text \<open>\<^verbatim>\<open>error.message || fallback\<close>: an absent or empty message is falsy.\<close>

definition message_or :: "js_error \<Rightarrow> string \<Rightarrow> string" where
  "message_or e fallback =
     (case message e of
        None \<Rightarrow> fallback
      | Some m \<Rightarrow> if m = [] then fallback else m)"

text \<open>The result of an awaited promise: it rejects (the \<^verbatim>\<open>await\<close> throws) or resolves.\<close>

datatype 'a awaited = Rejected js_error | Resolved 'a

record response =
  status :: nat
  json :: obj

text \<open>\<^verbatim>\<open>res.status(c).json(b)\<close>; \<^verbatim>\<open>JSON.stringify\<close> leaves out the keys whose value is
  \<^verbatim>\<open>undefined\<close>.\<close>

definition send :: "nat \<Rightarrow> obj \<Rightarrow> response" where
  "send c b = \<lparr>status = c, json = filter (\<lambda>kv. snd kv \<noteq> JUndefined) b\<rparr>"

section \<open>Principals, profiles, requests\<close>

text \<open>The user object of the identity provider, with the \<^verbatim>\<open>role\<close> property that
  \<^verbatim>\<open>requireRole\<close> adds to it.\<close>

record user =
  user_id :: string
  user_email :: string
  email_confirmed_at :: "string option"
  role :: "string option"

text \<open>The row that \<^verbatim>\<open>select('user_type')\<close> returns.\<close>

record profile =
  user_type :: string

record session =
  access_token :: string
  refresh_token :: string
  expires_in :: int
  token_type :: string

record auth_data =
  data_user :: "user option"
  data_session :: "session option"

text \<open>The fields of \<^verbatim>\<open>req.body\<close> that the routes read; \<^verbatim>\<open>None\<close> is a missing
  field.\<close>

record body =
  b_email :: "string option"
  b_password :: "string option"
  b_firstName :: "string option"
  b_lastName :: "string option"
  b_userType :: "string option"

record request =
  authorization :: "string option"
  req_user :: "user option"
  req_body :: body

text \<open>The argument of \<^verbatim>\<open>supabase.auth.signUp\<close> and the row handed to
  \<^verbatim>\<open>from('profiles').insert\<close>.\<close>

record signup_params =
  su_email :: string
  su_password :: string
  su_first_name :: string
  su_last_name :: string
  su_user_type :: string

record profile_row =
  row_id :: string
  row_email :: string
  row_first_name :: "string option"
  row_last_name :: "string option"
  row_user_type :: string

section \<open>The Supabase client as a capability\<close>

text \<open>
  Every method of the client is a transformer of the state \<open>'w\<close> of the outside world
  (the provider's accounts, the database, the network). The handlers never look at
  \<open>'w\<close>; they only pass it on. Beside the world, a run carries the list of the calls
  made so far, so that "the provider is never called" is a statement about that list.
\<close>

datatype sdk_call =
    GetUser "string option"
  | SelectUserType string
  | SignUp signup_params
  | InsertProfile profile_row
  | SignInWithPassword "string option" "string option"
  | SignOut
  | GetSession
  | ResetPasswordForEmail "string option"

record 'w supabase =
  auth_getUser :: "string option \<Rightarrow> 'w \<Rightarrow> (user option \<times> js_error option) awaited \<times> 'w"
  profiles_select_user_type :: "string \<Rightarrow> 'w \<Rightarrow> (profile option \<times> js_error option) awaited \<times> 'w"
  auth_signUp :: "signup_params \<Rightarrow> 'w \<Rightarrow> (auth_data \<times> js_error option) awaited \<times> 'w"
  profiles_insert :: "profile_row \<Rightarrow> 'w \<Rightarrow> (json \<times> js_error option) awaited \<times> 'w"
  auth_signInWithPassword ::
    "string option \<Rightarrow> string option \<Rightarrow> 'w \<Rightarrow> ((json \<times> json) \<times> js_error option) awaited \<times> 'w"
  auth_signOut :: "'w \<Rightarrow> (js_error option) awaited \<times> 'w"
  auth_getSession :: "'w \<Rightarrow> (json \<times> js_error option) awaited \<times> 'w"
  auth_resetPasswordForEmail :: "string option \<Rightarrow> 'w \<Rightarrow> (json \<times> js_error option) awaited \<times> 'w"

type_synonym 'w run = "'w \<times> sdk_call list"

definition invoke :: "sdk_call \<Rightarrow> ('w \<Rightarrow> 'a \<times> 'w) \<Rightarrow> 'w run \<Rightarrow> 'a \<times> 'w run" where
  "invoke c f s = (case f (fst s) of (r, w') \<Rightarrow> (r, (w', snd s @ [c])))"

section \<open>auth.middleware.js\<close>

text \<open>A middleware either sends a response or calls \<^verbatim>\<open>next()\<close> with the request it
  may have changed.\<close>

datatype outcome = Responded response | Next request

definition startsWith :: "string \<Rightarrow> string \<Rightarrow> bool" where
  "startsWith s p = (take (length p) s = p)"

text \<open>\<^verbatim>\<open>s.split(sep)\<close> for a separator of one character: a cut at every occurrence, so
  the result has one more element than \<open>s\<close> has separators.\<close>

fun split :: "char \<Rightarrow> string \<Rightarrow> string list" where
  "split sep [] = [[]]"
| "split sep (c # cs) =
     (if c = sep then [] # split sep cs
      else (case split sep cs of
              [] \<Rightarrow> [[c]]
            | w # ws \<Rightarrow> (c # w) # ws))"

text \<open>\<^verbatim>\<open>xs[i]\<close>: \<^verbatim>\<open>undefined\<close> beyond the end.\<close>

definition at_index :: "'a list \<Rightarrow> nat \<Rightarrow> 'a option" where
  "at_index xs i = (if i < length xs then Some (xs ! i) else None)"

definition extract_token :: "string \<Rightarrow> string option" where
  "extract_token authHeader = at_index (split CHR '' '' authHeader) 1"

definition failure :: "string \<Rightarrow> obj" where
  "failure msg = [(''success'', JBool False), (''error'', JStr msg)]"

definition requireAuth :: "'w supabase \<Rightarrow> request \<Rightarrow> 'w run \<Rightarrow> outcome \<times> 'w run" where
  "requireAuth supabase req s =
     (case authorization req of
        None \<Rightarrow> (Responded (send 401 (failure ''No token, authorization denied'')), s)
      | Some authHeader \<Rightarrow>
          if authHeader = [] \<or> \<not> startsWith authHeader ''Bearer ''
          then (Responded (send 401 (failure ''No token, authorization denied'')), s)
          else
            (let token = extract_token authHeader in
             case invoke (GetUser token) (auth_getUser supabase token) s of
               (Rejected err, s') \<Rightarrow>
                 (Responded (send 500 (failure ''Server error during authentication'')), s')
             | (Resolved (usr, error), s') \<Rightarrow>
                 (case (error, usr) of
                    (None, Some u) \<Rightarrow> (Next (req\<lparr>req_user := Some u\<rparr>), s')
                  | _ \<Rightarrow> (Responded (send 401 (failure ''Token is not valid'')), s'))))"

definition requireRole ::
  "'w supabase \<Rightarrow> string list \<Rightarrow> request \<Rightarrow> 'w run \<Rightarrow> outcome \<times> 'w run" where
  "requireRole supabase roles req s =
     (case req_user req of
        None \<Rightarrow> (Responded (send 401 (failure ''Authentication required'')), s)
      | Some u \<Rightarrow>
          (case invoke (SelectUserType (user_id u))
                  (profiles_select_user_type supabase (user_id u)) s of
             (Rejected err, s') \<Rightarrow>
               (Responded (send 500 (failure ''Server error during authorization'')), s')
           | (Resolved (prof, error), s') \<Rightarrow>
               (case (error, prof) of
                  (None, Some p) \<Rightarrow>
                    if roles \<noteq> [] \<and> user_type p \<notin> set roles
                    then (Responded
                            (send 403 (failure ''Access denied. Insufficient permissions.'')), s')
                    else (Next (req\<lparr>req_user := Some (u\<lparr>role := Some (user_type p)\<rparr>)\<rparr>), s')
                | _ \<Rightarrow>
                    (Responded
                       (send 403 (failure ''Access denied. User profile not found.'')), s'))))"

text \<open>\<open>development\<close> is \<^verbatim>\<open>process.env.NODE_ENV === 'development'\<close>.\<close>

definition errorHandler :: "bool \<Rightarrow> js_error \<Rightarrow> response" where
  "errorHandler development err =
     (if name err = ''JsonWebTokenError'' then send 401 (failure ''Invalid token'')
      else if name err = ''TokenExpiredError'' then send 401 (failure ''Token expired'')
      else send 500
             [(''success'', JBool False),
              (''error'', JStr ''Something went wrong!''),
              (''message'',
                 if development
                 then (case message err of None \<Rightarrow> JUndefined | Some m \<Rightarrow> JStr m)
                 else JUndefined)])"

definition notFound :: response where
  "notFound = send 404 (failure ''Endpoint not found'')"

section \<open>services/auth.service.js\<close>

text \<open>
  A service method returns \<^verbatim>\<open>{ success: true, data }\<close> or
  \<^verbatim>\<open>{ success: false, error }\<close>; it never rejects, since its whole body is inside
  \<^verbatim>\<open>try\<close>/\<^verbatim>\<open>catch\<close>.
\<close>

datatype 'a result = Success 'a | Failure string

text \<open>The \<^verbatim>\<open>TypeError\<close> of reading \<^verbatim>\<open>authData.user.id\<close> when the provider resolved
  with no error and no user.\<close>

definition null_user_error :: js_error where
  "null_user_error =
     \<lparr>name = ''TypeError'',
      message = Some ''Cannot read properties of null (reading 'id')'',
      code = None\<rparr>"

definition signUp ::
  "'w supabase \<Rightarrow> string \<Rightarrow> string \<Rightarrow> string \<Rightarrow> string \<Rightarrow> string \<Rightarrow> 'w run
     \<Rightarrow> (user \<times> session option) result \<times> 'w run" where
  "signUp supabase email password firstName lastName userType s =
     (let params = \<lparr>su_email = email, su_password = password, su_first_name = firstName,
                     su_last_name = lastName, su_user_type = userType\<rparr> in
      case invoke (SignUp params) (auth_signUp supabase params) s of
        (Rejected err, s1) \<Rightarrow> (Failure (message_or err ''Failed to sign up user''), s1)
      | (Resolved (authData, signUpError), s1) \<Rightarrow>
          (case signUpError of
             Some err \<Rightarrow> (Failure (message_or err ''Failed to sign up user''), s1)
           | None \<Rightarrow>
               (case data_user authData of
                  None \<Rightarrow> (Failure (message_or null_user_error ''Failed to sign up user''), s1)
                | Some u \<Rightarrow>
                    (let row = \<lparr>row_id = user_id u, row_email = email,
                                  row_first_name = Some firstName,
                                  row_last_name = Some lastName,
                                  row_user_type = userType\<rparr> in
                     case invoke (InsertProfile row) (profiles_insert supabase row) s1 of
                       (Rejected err, s2) \<Rightarrow>
                         (Failure (message_or err ''Failed to sign up user''), s2)
                     | (Resolved (profileData, profileError), s2) \<Rightarrow>
                         (case profileError of
                            Some err \<Rightarrow>
                              (Failure (message_or err ''Failed to sign up user''), s2)
                          | None \<Rightarrow> (Success (u, data_session authData), s2))))))"

definition signIn ::
  "'w supabase \<Rightarrow> string option \<Rightarrow> string option \<Rightarrow> 'w run \<Rightarrow> (json \<times> json) result \<times> 'w run" where
  "signIn supabase email password s =
     (case invoke (SignInWithPassword email password)
             (auth_signInWithPassword supabase email password) s of
        (Rejected err, s') \<Rightarrow> (Failure (message_or err ''Failed to sign in''), s')
      | (Resolved (d, error), s') \<Rightarrow>
          (case error of
             Some err \<Rightarrow> (Failure (message_or err ''Failed to sign in''), s')
           | None \<Rightarrow> (Success d, s')))"

definition signOut :: "'w supabase \<Rightarrow> 'w run \<Rightarrow> unit result \<times> 'w run" where
  "signOut supabase s =
     (case invoke SignOut (auth_signOut supabase) s of
        (Rejected err, s') \<Rightarrow> (Failure (message_or err ''Failed to sign out''), s')
      | (Resolved error, s') \<Rightarrow>
          (case error of
             Some err \<Rightarrow> (Failure (message_or err ''Failed to sign out''), s')
           | None \<Rightarrow> (Success (), s')))"

definition getSession :: "'w supabase \<Rightarrow> 'w run \<Rightarrow> json result \<times> 'w run" where
  "getSession supabase s =
     (case invoke GetSession (auth_getSession supabase) s of
        (Rejected err, s') \<Rightarrow> (Failure (message_or err ''Failed to get session''), s')
      | (Resolved (sess, error), s') \<Rightarrow>
          (case error of
             Some err \<Rightarrow> (Failure (message_or err ''Failed to get session''), s')
           | None \<Rightarrow> (Success (JObj [(''session'', sess)]), s')))"

text \<open>The user object as it is serialised in a response.\<close>

definition user_json :: "user option \<Rightarrow> json" where
  "user_json usr =
     (case usr of
        None \<Rightarrow> JNull
      | Some u \<Rightarrow>
          JObj [(''id'', JStr (user_id u)),
                (''email'', JStr (user_email u)),
                (''email_confirmed_at'',
                   (case email_confirmed_at u of None \<Rightarrow> JNull | Some t \<Rightarrow> JStr t))])"

definition getUser :: "'w supabase \<Rightarrow> 'w run \<Rightarrow> json result \<times> 'w run" where
  "getUser supabase s =
     (case invoke (GetUser None) (auth_getUser supabase None) s of
        (Rejected err, s') \<Rightarrow> (Failure (message_or err ''Failed to get user''), s')
      | (Resolved (usr, error), s') \<Rightarrow>
          (case error of
             Some err \<Rightarrow> (Failure (message_or err ''Failed to get user''), s')
           | None \<Rightarrow> (Success (JObj [(''user'', user_json usr)]), s')))"

definition resetPassword :: "'w supabase \<Rightarrow> string option \<Rightarrow> 'w run \<Rightarrow> json result \<times> 'w run" where
  "resetPassword supabase email s =
     (case invoke (ResetPasswordForEmail email) (auth_resetPasswordForEmail supabase email) s of
        (Rejected err, s') \<Rightarrow>
          (Failure (message_or err ''Failed to send password reset email''), s')
      | (Resolved (d, error), s') \<Rightarrow>
          (case error of
             Some err \<Rightarrow>
               (Failure (message_or err ''Failed to send password reset email''), s')
           | None \<Rightarrow> (Success d, s')))"

section \<open>routes/auth.routes.js\<close>

text \<open>
  The express-validator chains. A validator sees the field as a string, a missing
  field as the empty string; each chain here has one check, so it adds at most one
  error, which records the field, the submitted value and the message. \<open>isEmail\<close> is
  the library's predicate, taken as a parameter.
\<close>

type_synonym validation_error = "string \<times> string option \<times> string"

definition field_str :: "string option \<Rightarrow> string" where
  "field_str v = (case v of None \<Rightarrow> [] | Some x \<Rightarrow> x)"

definition check ::
  "bool \<Rightarrow> string \<Rightarrow> string option \<Rightarrow> string \<Rightarrow> validation_error list" where
  "check ok field v msg = (if ok then [] else [(field, v, msg)])"

definition signup_validators :: "(string \<Rightarrow> bool) \<Rightarrow> body \<Rightarrow> validation_error list" where
  "signup_validators isEmail b =
     check (isEmail (field_str (b_email b))) ''email'' (b_email b) ''Please include a valid email'' @
     check (6 \<le> length (field_str (b_password b))) ''password'' (b_password b)
       ''Please enter a password with 6 or more characters'' @
     check (field_str (b_firstName b) \<noteq> []) ''firstName'' (b_firstName b) ''First name is required'' @
     check (field_str (b_lastName b) \<noteq> []) ''lastName'' (b_lastName b) ''Last name is required'' @
     check (field_str (b_userType b) \<in> set [''CUSTOMER'', ''HUSTLER'']) ''userType'' (b_userType b)
       ''User type is required''"

definition signin_validators :: "(string \<Rightarrow> bool) \<Rightarrow> body \<Rightarrow> validation_error list" where
  "signin_validators isEmail b =
     check (isEmail (field_str (b_email b))) ''email'' (b_email b) ''Please include a valid email'' @
     check (b_password b \<noteq> None) ''password'' (b_password b) ''Password is required''"

definition reset_validators :: "(string \<Rightarrow> bool) \<Rightarrow> body \<Rightarrow> validation_error list" where
  "reset_validators isEmail b =
     check (isEmail (field_str (b_email b))) ''email'' (b_email b) ''Please include a valid email''"

text \<open>An element of \<^verbatim>\<open>errors.array()\<close>: the \<^verbatim>\<open>value\<close> is the submitted one, and
  is not serialised for a missing field.\<close>

definition error_json :: "validation_error \<Rightarrow> json" where
  "error_json e =
     (case e of
        (path, v, msg) \<Rightarrow>
          JObj ([(''type'', JStr ''field'')] @
                (case v of None \<Rightarrow> [] | Some x \<Rightarrow> [(''value'', JStr x)]) @
                [(''msg'', JStr msg), (''path'', JStr path), (''location'', JStr ''body'')]))"

definition validate :: "validation_error list \<Rightarrow> request \<Rightarrow> outcome" where
  "validate errors req =
     (if errors \<noteq> []
      then Responded (send 400 [(''success'', JBool False),
                                (''errors'', JArr (map error_json errors))])
      else Next req)"

definition session_json :: "session option \<Rightarrow> json" where
  "session_json sess =
     (case sess of
        None \<Rightarrow> JNull
      | Some x \<Rightarrow>
          JObj [(''access_token'', JStr (access_token x)),
                (''refresh_token'', JStr (refresh_token x)),
                (''expires_in'', JNum (expires_in x)),
                (''token_type'', JStr (token_type x))])"

text \<open>
  The handlers, each behind its validators. \<^verbatim>\<open>req.body\<close> is an object (the
  application mounts \<^verbatim>\<open>express.json()\<close> before the routes), the service never
  rejects, and a successful \<^verbatim>\<open>signUp\<close> has a user: so nothing inside a handler's
  \<^verbatim>\<open>try\<close> throws, and the \<^verbatim>\<open>catch\<close> branches (status 500, with
  \<^verbatim>\<open>success: false\<close> and a string \<^verbatim>\<open>error\<close>) have no path here.
\<close>

definition signup_handler :: "'w supabase \<Rightarrow> request \<Rightarrow> 'w run \<Rightarrow> response \<times> 'w run" where
  "signup_handler supabase req s =
     (case (b_email (req_body req), b_password (req_body req), b_firstName (req_body req),
            b_lastName (req_body req), b_userType (req_body req)) of
        (Some email, Some password, Some firstName, Some lastName, Some userType) \<Rightarrow>
          if email = [] \<or> password = [] \<or> firstName = [] \<or> lastName = [] \<or> userType = []
          then (send 400 (failure ''Missing required fields''), s)
          else
            (case signUp supabase email password firstName lastName userType s of
               (Failure msg, s') \<Rightarrow>
                 (send 400
                    [(''success'', JBool False),
                     (''error'', JStr (if msg = [] then ''Failed to create user account'' else msg)),
                     (''details'', JUndefined)], s')
             | (Success (usr, sess), s') \<Rightarrow>
                 (send 201
                    [(''success'', JBool True),
                     (''message'', JStr ''User registered successfully''),
                     (''data'',
                        JObj [(''user'',
                                 JObj [(''id'', JStr (user_id usr)),
                                       (''email'', JStr (user_email usr)),
                                       (''firstName'', JStr firstName),
                                       (''lastName'', JStr lastName),
                                       (''userType'', JStr userType),
                                       (''isVerified'', JBool (email_confirmed_at usr \<noteq> None))]),
                              (''session'', session_json sess)])], s'))
      | _ \<Rightarrow> (send 400 (failure ''Missing required fields''), s))"

definition post_signup ::
  "(string \<Rightarrow> bool) \<Rightarrow> 'w supabase \<Rightarrow> request \<Rightarrow> 'w run \<Rightarrow> response \<times> 'w run" where
  "post_signup isEmail supabase req s =
     (case validate (signup_validators isEmail (req_body req)) req of
        Responded res \<Rightarrow> (res, s)
      | Next req' \<Rightarrow> signup_handler supabase req' s)"

definition signin_handler :: "'w supabase \<Rightarrow> request \<Rightarrow> 'w run \<Rightarrow> response \<times> 'w run" where
  "signin_handler supabase req s =
     (case signIn supabase (b_email (req_body req)) (b_password (req_body req)) s of
        (Failure msg, s') \<Rightarrow> (send 400 (failure msg), s')
      | (Success (usr, sess), s') \<Rightarrow>
          (send 200
             [(''success'', JBool True),
              (''message'', JStr ''User logged in successfully''),
              (''data'', JObj [(''user'', usr), (''session'', sess)])], s'))"

definition post_signin ::
  "(string \<Rightarrow> bool) \<Rightarrow> 'w supabase \<Rightarrow> request \<Rightarrow> 'w run \<Rightarrow> response \<times> 'w run" where
  "post_signin isEmail supabase req s =
     (case validate (signin_validators isEmail (req_body req)) req of
        Responded res \<Rightarrow> (res, s)
      | Next req' \<Rightarrow> signin_handler supabase req' s)"

definition post_signout :: "'w supabase \<Rightarrow> request \<Rightarrow> 'w run \<Rightarrow> response \<times> 'w run" where
  "post_signout supabase req s =
     (case signOut supabase s of
        (Failure msg, s') \<Rightarrow> (send 400 (failure msg), s')
      | (Success u, s') \<Rightarrow>
          (send 200 [(''success'', JBool True),
                     (''message'', JStr ''User logged out successfully'')], s'))"

definition get_session :: "'w supabase \<Rightarrow> request \<Rightarrow> 'w run \<Rightarrow> response \<times> 'w run" where
  "get_session supabase req s =
     (case getSession supabase s of
        (Failure msg, s') \<Rightarrow> (send 401 (failure msg), s')
      | (Success d, s') \<Rightarrow> (send 200 [(''success'', JBool True), (''data'', d)], s'))"

definition get_user :: "'w supabase \<Rightarrow> request \<Rightarrow> 'w run \<Rightarrow> response \<times> 'w run" where
  "get_user supabase req s =
     (case getUser supabase s of
        (Failure msg, s') \<Rightarrow> (send 401 (failure msg), s')
      | (Success d, s') \<Rightarrow> (send 200 [(''success'', JBool True), (''data'', d)], s'))"

definition reset_handler :: "'w supabase \<Rightarrow> request \<Rightarrow> 'w run \<Rightarrow> response \<times> 'w run" where
  "reset_handler supabase req s =
     (case resetPassword supabase (b_email (req_body req)) s of
        (Failure msg, s') \<Rightarrow> (send 400 (failure msg), s')
      | (Success d, s') \<Rightarrow>
          (send 200 [(''success'', JBool True),
                     (''message'', JStr ''Password reset email sent successfully'')], s'))"

definition post_reset_password ::
  "(string \<Rightarrow> bool) \<Rightarrow> 'w supabase \<Rightarrow> request \<Rightarrow> 'w run \<Rightarrow> response \<times> 'w run" where
  "post_reset_password isEmail supabase req s =
     (case validate (reset_validators isEmail (req_body req)) req of
        Responded res \<Rightarrow> (res, s)
      | Next req' \<Rightarrow> reset_handler supabase req' s)"

section \<open>The application\<close>

text \<open>\<open>now\<close> is \<^verbatim>\<open>new Date().toISOString()\<close>.\<close>

definition health :: "string \<Rightarrow> response" where
  "health now =
     send 200 [(''success'', JBool True),
               (''message'', JStr ''Server is running''),
               (''timestamp'', JStr now)]"

text \<open>The routes that Express matches, in the order the application mounts them;
  \<open>Unmatched\<close> is a request that reaches the 404 middleware.\<close>

datatype route =
    Health
  | Signup
  | Signin
  | Signout
  | Session
  | CurrentUser
  | ResetPassword
  | Unmatched

definition app ::
  "(string \<Rightarrow> bool) \<Rightarrow> string \<Rightarrow> 'w supabase \<Rightarrow> route \<Rightarrow> request \<Rightarrow> 'w run \<Rightarrow> response \<times> 'w run" where
  "app isEmail now supabase r req s =
     (case r of
        Health \<Rightarrow> (health now, s)
      | Signup \<Rightarrow> post_signup isEmail supabase req s
      | Signin \<Rightarrow> post_signin isEmail supabase req s
      | Signout \<Rightarrow> post_signout supabase req s
      | Session \<Rightarrow> get_session supabase req s
      | CurrentUser \<Rightarrow> get_user supabase req s
      | ResetPassword \<Rightarrow> post_reset_password isEmail supabase req s
      | Unmatched \<Rightarrow> (notFound, s))"

section \<open>The schema: the profiles table and the trigger on new accounts\<close>

text \<open>
  The two tables of the SQL script, as far as its constraints on \<^verbatim>\<open>profiles\<close> go: the
  primary key \<^verbatim>\<open>id\<close>, \<^verbatim>\<open>email UNIQUE\<close>, \<^verbatim>\<open>first_name\<close> and \<^verbatim>\<open>last_name\<close>
  \<^verbatim>\<open>NOT NULL\<close>, and \<^verbatim>\<open>user_type\<close> of the enum \<^verbatim>\<open>user_role\<close>. Row level security is
  not modelled.
\<close>

record auth_user_row =
  au_id :: string
  au_email :: string
  raw_user_meta_data :: "(string \<times> string) list"

record database =
  auth_users :: "auth_user_row list"
  profiles :: "profile_row list"

definition user_role :: "string list" where
  "user_role = [''CUSTOMER'', ''HUSTLER'', ''ADMIN'']"

text \<open>
  \<^verbatim>\<open>handle_new_user\<close>, fired after an insert on \<^verbatim>\<open>auth.users\<close>. \<open>None\<close> is a raised
  error, which aborts the insert that fired the trigger. A row with the same \<^verbatim>\<open>id\<close>
  makes the insert do nothing (\<^verbatim>\<open>ON CONFLICT (id) DO NOTHING\<close>).
\<close>

definition handle_new_user :: "auth_user_row \<Rightarrow> database \<Rightarrow> database option" where
  "handle_new_user NEW db =
     (let row = \<lparr>row_id = au_id NEW,
                  row_email = au_email NEW,
                  row_first_name = map_of (raw_user_meta_data NEW) ''first_name'',
                  row_last_name = map_of (raw_user_meta_data NEW) ''last_name'',
                  row_user_type =
                    (case map_of (raw_user_meta_data NEW) ''user_type'' of
                       None \<Rightarrow> ''CUSTOMER''
                     | Some t \<Rightarrow> t)\<rparr> in
      if row_user_type row \<notin> set user_role then None
      else if row_first_name row = None \<or> row_last_name row = None then None
      else if row_id row \<in> set (map row_id (profiles db)) then Some db
      else if row_email row \<in> set (map row_email (profiles db)) then None
      else Some (db\<lparr>profiles := profiles db @ [row]\<rparr>))"

text \<open>The errors PostgREST returns for a rejected statement.\<close>

definition pg_error :: "string \<Rightarrow> js_error" where
  "pg_error msg = \<lparr>name = ''PostgrestError'', message = Some msg, code = Some 409\<rparr>"

text \<open>\<^verbatim>\<open>from('profiles').insert([row])\<close> against that table.\<close>

definition insert_profile ::
  "profile_row \<Rightarrow> database \<Rightarrow> (json \<times> js_error option) awaited \<times> database" where
  "insert_profile row db =
     (if row_user_type row \<notin> set user_role
      then (Resolved
              (JNull,
               Some (pg_error
                 (''invalid input value for enum user_role: \"'' @ row_user_type row @ ''\"''))),
            db)
      else if row_first_name row = None
      then (Resolved
              (JNull,
               Some (pg_error
                 ''null value in column \"first_name\" of relation \"profiles\" violates not-null constraint'')),
            db)
      else if row_last_name row = None
      then (Resolved
              (JNull,
               Some (pg_error
                 ''null value in column \"last_name\" of relation \"profiles\" violates not-null constraint'')),
            db)
      else if row_id row \<in> set (map row_id (profiles db))
      then (Resolved
              (JNull,
               Some (pg_error
                 ''duplicate key value violates unique constraint \"profiles_pkey\"'')),
            db)
      else if row_email row \<in> set (map row_email (profiles db))
      then (Resolved
              (JNull,
               Some (pg_error
                 ''duplicate key value violates unique constraint \"profiles_email_key\"'')),
            db)
      else if row_id row \<notin> set (map au_id (auth_users db))
      then (Resolved
              (JNull,
               Some (pg_error
                 ''insert or update on table \"profiles\" violates foreign key constraint \"profiles_id_fkey\"'')),
            db)
      else (Resolved (JNull, None), db\<lparr>profiles := profiles db @ [row]\<rparr>))"

text \<open>\<^verbatim>\<open>from('profiles').select('user_type').eq('id', i).single()\<close>: no row is an error.\<close>

definition select_user_type ::
  "string \<Rightarrow> database \<Rightarrow> (profile option \<times> js_error option) awaited \<times> database" where
  "select_user_type i db =
     (case find (\<lambda>r. row_id r = i) (profiles db) of
        None \<Rightarrow>
          (Resolved
             (None,
              Some \<lparr>name = ''PostgrestError'',
                    message = Some ''JSON object requested, multiple (or no) rows returned'',
                    code = Some 406\<rparr>),
           db)
      | Some r \<Rightarrow> (Resolved (Some \<lparr>user_type = row_user_type r\<rparr>, None), db))"

text \<open>
  Account creation at the provider, for the scenarios below: an unused email gets an
  account whose insert fires the trigger; the account is kept only if the trigger does
  not raise.
\<close>

definition create_account ::
  "signup_params \<Rightarrow> database \<Rightarrow> (auth_data \<times> js_error option) awaited \<times> database" where
  "create_account p db =
     (if su_email p \<in> set (map au_email (auth_users db))
      then (Resolved
              (\<lparr>data_user = None, data_session = None\<rparr>,
               Some \<lparr>name = ''AuthApiError'', message = Some ''User already registered'',
                     code = Some 422\<rparr>),
            db)
      else
        (let NEW = \<lparr>au_id = ''id-'' @ su_email p,
                     au_email = su_email p,
                     raw_user_meta_data =
                       [(''first_name'', su_first_name p),
                        (''last_name'', su_last_name p),
                        (''user_type'', su_user_type p)]\<rparr> in
         case handle_new_user NEW (db\<lparr>auth_users := auth_users db @ [NEW]\<rparr>) of
           None \<Rightarrow>
             (Resolved
                (\<lparr>data_user = None, data_session = None\<rparr>,
                 Some \<lparr>name = ''AuthApiError'', message = Some ''Database error saving new user'',
                       code = Some 500\<rparr>),
              db)
         | Some db' \<Rightarrow>
             (Resolved
                (\<lparr>data_user = Some \<lparr>user_id = au_id NEW, user_email = au_email NEW,
                                    email_confirmed_at = None, role = None\<rparr>,
                  data_session = None\<rparr>,
                 None),
              db')))"

section \<open>Clients for the scenarios\<close>

definition fetch_failed :: js_error where
  "fetch_failed = \<lparr>name = ''TypeError'', message = Some ''fetch failed'', code = None\<rparr>"

text \<open>A client whose every call throws.\<close>

definition offline :: "'w supabase" where
  "offline =
     \<lparr>auth_getUser = (\<lambda>t w. (Rejected fetch_failed, w)),
      profiles_select_user_type = (\<lambda>i w. (Rejected fetch_failed, w)),
      auth_signUp = (\<lambda>p w. (Rejected fetch_failed, w)),
      profiles_insert = (\<lambda>r w. (Rejected fetch_failed, w)),
      auth_signInWithPassword = (\<lambda>e p w. (Rejected fetch_failed, w)),
      auth_signOut = (\<lambda>w. (Rejected fetch_failed, w)),
      auth_getSession = (\<lambda>w. (Rejected fetch_failed, w)),
      auth_resetPasswordForEmail = (\<lambda>e w. (Rejected fetch_failed, w))\<rparr>"

text \<open>
  A client in front of a provider that cannot be reached or answers 502..504:
  \<^verbatim>\<open>getUser\<close> does not throw, it resolves with the error object and no user.
\<close>

definition gateway_down :: js_error where
  "gateway_down =
     \<lparr>name = ''AuthRetryableFetchError'', message = Some ''Bad Gateway'', code = Some 502\<rparr>"

definition unavailable :: "'w supabase" where
  "unavailable = offline\<lparr>auth_getUser := (\<lambda>t w. (Resolved (None, Some gateway_down), w))\<rparr>"

text \<open>A client of the database above; its one token is \<^verbatim>\<open>abc123\<close>, of the user
  \<^verbatim>\<open>u1\<close>, and signing out always works. The user \<^verbatim>\<open>u3\<close> has an account and no
  profile row.\<close>

definition u1 :: user where
  "u1 = \<lparr>user_id = ''u1'', user_email = ''u1@example.com'',
          email_confirmed_at = None, role = None\<rparr>"

definition u2 :: user where
  "u2 = \<lparr>user_id = ''u2'', user_email = ''u2@example.com'',
          email_confirmed_at = None, role = None\<rparr>"

definition u3 :: user where
  "u3 = \<lparr>user_id = ''u3'', user_email = ''u3@example.com'',
          email_confirmed_at = None, role = None\<rparr>"

definition hosted :: "database supabase" where
  "hosted =
     offline
       \<lparr>auth_getUser :=
          (\<lambda>t db.
             if t = Some ''abc123'' then (Resolved (Some u1, None), db)
             else (Resolved
                     (None,
                      Some \<lparr>name = ''AuthApiError'', message = Some ''invalid JWT'',
                            code = Some 403\<rparr>),
                   db)),
        profiles_select_user_type := select_user_type,
        auth_signUp := create_account,
        profiles_insert := insert_profile,
        auth_signOut := (\<lambda>db. (Resolved None, db))\<rparr>"

definition registry :: database where
  "registry =
     \<lparr>auth_users =
        [\<lparr>au_id = ''u1'', au_email = ''u1@example.com'', raw_user_meta_data = []\<rparr>,
         \<lparr>au_id = ''u2'', au_email = ''u2@example.com'', raw_user_meta_data = []\<rparr>,
         \<lparr>au_id = ''u3'', au_email = ''u3@example.com'', raw_user_meta_data = []\<rparr>],
      profiles =
        [\<lparr>row_id = ''u1'', row_email = ''u1@example.com'', row_first_name = Some ''Una'',
          row_last_name = Some ''One'', row_user_type = ''HUSTLER''\<rparr>,
         \<lparr>row_id = ''u2'', row_email = ''u2@example.com'', row_first_name = Some ''Dua'',
          row_last_name = Some ''Two'', row_user_type = ''ADMIN''\<rparr>]\<rparr>"

definition anonymous :: request where
  "anonymous =
     \<lparr>authorization = None, req_user = None,
      req_body = \<lparr>b_email = None, b_password = None, b_firstName = None,
                  b_lastName = None, b_userType = None\<rparr>\<rparr>"

definition bearer :: "string \<Rightarrow> request" where
  "bearer t = anonymous\<lparr>authorization := Some (''Bearer '' @ t)\<rparr>"

text \<open>A stand-in for the library's \<^verbatim>\<open>isEmail\<close>, and a request with a filled form.\<close>

definition has_at :: "string \<Rightarrow> bool" where
  "has_at e = (CHR ''@'' \<in> set e)"

definition form :: "string \<Rightarrow> string \<Rightarrow> string \<Rightarrow> string \<Rightarrow> string \<Rightarrow> request" where
  "form e p f l t =
     anonymous\<lparr>req_body := \<lparr>b_email = Some e, b_password = Some p, b_firstName = Some f,
                             b_lastName = Some l, b_userType = Some t\<rparr>\<rparr>"

text \<open>A sign-up against the database above: the parameters, the account the provider
  creates, the profile row (the one the trigger inserts, and the one \<^verbatim>\<open>signUp\<close> then
  tries to insert), and the database after the account creation.\<close>

definition ada :: signup_params where
  "ada = \<lparr>su_email = ''ada@example.com'', su_password = ''secret1'', su_first_name = ''Ada'',
          su_last_name = ''Byron'', su_user_type = ''CUSTOMER''\<rparr>"

definition ada_account :: auth_user_row where
  "ada_account =
     \<lparr>au_id = ''id-ada@example.com'', au_email = ''ada@example.com'',
      raw_user_meta_data =
        [(''first_name'', ''Ada''), (''last_name'', ''Byron''), (''user_type'', ''CUSTOMER'')]\<rparr>"

definition ada_row :: profile_row where
  "ada_row =
     \<lparr>row_id = ''id-ada@example.com'', row_email = ''ada@example.com'',
      row_first_name = Some ''Ada'', row_last_name = Some ''Byron'',
      row_user_type = ''CUSTOMER''\<rparr>"

definition registry_with_ada :: database where
  "registry_with_ada =
     \<lparr>auth_users = auth_users registry @ [ada_account],
      profiles = profiles registry @ [ada_row]\<rparr>"

section \<open>The error table of the specification\<close>

text \<open>The status and \<^verbatim>\<open>body.error\<close> pairs of the specification's mapping table, in
  its order.\<close>

definition spec_error_table :: "(nat \<times> string) list" where
  "spec_error_table =
     [(401, ''No token, authorization denied''),
      (401, ''Token is not valid''),
      (500, ''Server error during authentication''),
      (403, ''Access denied. User profile not found.''),
      (403, ''Access denied. Insufficient permissions.''),
      (404, ''Endpoint not found''),
      (500, ''Something went wrong!'')]"

section \<open>Bearer headers\<close>

lemma split_hd: "split sep xs = takeWhile (\<lambda>c. c \<noteq> sep) xs # tl (split sep xs)"
  by (induction xs) (auto split: list.splits)

lemma split_Bearer: "split CHR '' '' (''Bearer '' @ rest) = ''Bearer'' # split CHR '' '' rest"
  by (simp split: list.splits)

lemma extract_token_Bearer:
  "extract_token (''Bearer '' @ rest) = Some (takeWhile (\<lambda>c. c \<noteq> CHR '' '') rest)"
proof -
  obtain ws where "split CHR '' '' rest = takeWhile (\<lambda>c. c \<noteq> CHR '' '') rest # ws"
    using split_hd by blast
  then show ?thesis
    unfolding extract_token_def at_index_def split_Bearer by simp
qed

lemma startsWith_BearerD:
  assumes "startsWith h ''Bearer ''"
  shows "h = ''Bearer '' @ drop (length ''Bearer '') h"
proof -
  from assms have "take (length ''Bearer '') h = ''Bearer ''"
    by (simp only: startsWith_def)
  then have "take (length ''Bearer '') h @ drop (length ''Bearer '') h =
               ''Bearer '' @ drop (length ''Bearer '') h"
    by (simp only:)
  then show ?thesis by (simp only: append_take_drop_id)
qed

lemma bearer_token:
  assumes "startsWith h ''Bearer ''"
  shows "h \<noteq> []"
    and "extract_token h = Some (takeWhile (\<lambda>c. c \<noteq> CHR '' '') (drop (length ''Bearer '') h))"
proof -
  define rest where "rest = drop (length ''Bearer '') h"
  have h: "h = ''Bearer '' @ rest"
    unfolding rest_def using assms by (rule startsWith_BearerD)
  show "h \<noteq> []" by (subst h) simp
  have "extract_token (''Bearer '' @ rest) = Some (takeWhile (\<lambda>c. c \<noteq> CHR '' '') rest)"
    by (rule extract_token_Bearer)
  then show "extract_token h =
      Some (takeWhile (\<lambda>c. c \<noteq> CHR '' '') (drop (length ''Bearer '') h))"
    unfolding rest_def [symmetric] h [symmetric] .
qed

section \<open>The authenticator and the authorizer\<close>

text \<open>
  C1. For an authenticated principal whose role the profile store resolves: with a
  non-empty allow-list that does not contain the role, \<^verbatim>\<open>requireRole\<close> answers 403
  "Access denied. Insufficient permissions."; with the empty allow-list it calls
  \<^verbatim>\<open>next()\<close>, whatever the role, with the role attached to \<^verbatim>\<open>req.user\<close>.
\<close>

theorem requireRole_allow_list:
  assumes "req_user req = Some u"
    and "profiles_select_user_type supabase (user_id u) (fst s) = (Resolved (Some p, None), w')"
  shows "(roles \<noteq> [] \<and> user_type p \<notin> set roles \<longrightarrow>
            requireRole supabase roles req s =
              (Responded \<lparr>status = 403,
                          json = [(''success'', JBool False),
                                  (''error'', JStr ''Access denied. Insufficient permissions.'')]\<rparr>,
               (w', snd s @ [SelectUserType (user_id u)])))
       \<and> (roles = [] \<longrightarrow>
            requireRole supabase roles req s =
              (Next (req\<lparr>req_user := Some (u\<lparr>role := Some (user_type p)\<rparr>)\<rparr>),
               (w', snd s @ [SelectUserType (user_id u)])))"
  using assms
  by (simp add: requireRole_def invoke_def send_def failure_def)

theorem requireRole_allow_list_witness:
  "requireRole hosted [''ADMIN''] (anonymous\<lparr>req_user := Some u1\<rparr>) (registry, []) =
     (Responded \<lparr>status = 403,
                 json = [(''success'', JBool False),
                         (''error'', JStr ''Access denied. Insufficient permissions.'')]\<rparr>,
      (registry, [SelectUserType ''u1'']))
   \<and> requireRole hosted [] (anonymous\<lparr>req_user := Some u1\<rparr>) (registry, []) =
     (Next (anonymous\<lparr>req_user := Some (u1\<lparr>role := Some ''HUSTLER''\<rparr>)\<rparr>),
      (registry, [SelectUserType ''u1'']))"
proof -
  have u: "req_user (anonymous\<lparr>req_user := Some u1\<rparr>) = Some u1" by simp
  have p: "profiles_select_user_type hosted (user_id u1) (fst (registry, [])) =
             (Resolved (Some \<lparr>user_type = ''HUSTLER''\<rparr>, None), registry)"
    by (simp add: hosted_def offline_def select_user_type_def registry_def u1_def)
  show ?thesis
    using requireRole_allow_list [OF u p, of "[''ADMIN'']"] requireRole_allow_list [OF u p, of "[]"]
    by (simp add: u1_def)
qed

text \<open>
  C2. A request with no Authorization header, or one that does not start with
  "Bearer ", is answered 401 "No token, authorization denied", and the run is left as
  it was: no call reaches the provider.
\<close>

theorem requireAuth_missing_credential:
  assumes "case authorization req of None \<Rightarrow> True | Some h \<Rightarrow> \<not> startsWith h ''Bearer ''"
  shows "requireAuth supabase req s =
           (Responded \<lparr>status = 401,
                       json = [(''success'', JBool False),
                               (''error'', JStr ''No token, authorization denied'')]\<rparr>, s)"
  using assms by (simp add: requireAuth_def send_def failure_def split: option.splits)

theorem requireAuth_missing_credential_witness:
  "requireAuth hosted anonymous (registry, []) =
     (Responded \<lparr>status = 401,
                 json = [(''success'', JBool False),
                         (''error'', JStr ''No token, authorization denied'')]\<rparr>, (registry, []))
   \<and> requireAuth hosted (anonymous\<lparr>authorization := Some ''Basic dTE6cHc=''\<rparr>) (registry, []) =
     (Responded \<lparr>status = 401,
                 json = [(''success'', JBool False),
                         (''error'', JStr ''No token, authorization denied'')]\<rparr>, (registry, []))
   \<and> requireAuth hosted (anonymous\<lparr>authorization := Some ''bearer abc123''\<rparr>) (registry, []) =
     (Responded \<lparr>status = 401,
                 json = [(''success'', JBool False),
                         (''error'', JStr ''No token, authorization denied'')]\<rparr>, (registry, []))"
  using requireAuth_missing_credential [of anonymous hosted "(registry, [])"]
    requireAuth_missing_credential
      [of "anonymous\<lparr>authorization := Some ''Basic dTE6cHc=''\<rparr>" hosted "(registry, [])"]
    requireAuth_missing_credential
      [of "anonymous\<lparr>authorization := Some ''bearer abc123''\<rparr>" hosted "(registry, [])"]
  by (simp add: anonymous_def startsWith_def)

text \<open>
  C3. When the profile store resolves with no row for the principal's identifier,
  \<^verbatim>\<open>requireRole\<close> answers 403 "Access denied. User profile not found.", for every
  allow-list, the empty one included.
\<close>

theorem requireRole_profile_not_found:
  assumes "req_user req = Some u"
    and "profiles_select_user_type supabase (user_id u) (fst s) = (Resolved (None, error), w')"
  shows "requireRole supabase roles req s =
           (Responded \<lparr>status = 403,
                       json = [(''success'', JBool False),
                               (''error'', JStr ''Access denied. User profile not found.'')]\<rparr>,
            (w', snd s @ [SelectUserType (user_id u)]))"
  using assms
  by (simp add: requireRole_def invoke_def send_def failure_def split: option.splits)

theorem requireRole_profile_not_found_witness:
  "requireRole hosted [] (anonymous\<lparr>req_user := Some u3\<rparr>) (registry, []) =
     (Responded \<lparr>status = 403,
                 json = [(''success'', JBool False),
                         (''error'', JStr ''Access denied. User profile not found.'')]\<rparr>,
      (registry, [SelectUserType ''u3'']))
   \<and> requireRole hosted [''CUSTOMER'', ''HUSTLER'', ''ADMIN''] (anonymous\<lparr>req_user := Some u3\<rparr>)
       (registry, []) =
     (Responded \<lparr>status = 403,
                 json = [(''success'', JBool False),
                         (''error'', JStr ''Access denied. User profile not found.'')]\<rparr>,
      (registry, [SelectUserType ''u3'']))"
proof -
  have u: "req_user (anonymous\<lparr>req_user := Some u3\<rparr>) = Some u3" by simp
  have p: "profiles_select_user_type hosted (user_id u3) (fst (registry, [])) =
             (Resolved
               (None,
                Some \<lparr>name = ''PostgrestError'',
                      message = Some ''JSON object requested, multiple (or no) rows returned'',
                      code = Some 406\<rparr>), registry)"
    by (simp add: hosted_def offline_def select_user_type_def registry_def u3_def)
  show ?thesis
    using requireRole_profile_not_found [OF u p, of "[]"]
      requireRole_profile_not_found [OF u p, of "[''CUSTOMER'', ''HUSTLER'', ''ADMIN'']"]
    by (simp add: u3_def)
qed

text \<open>
  C10. Without \<^verbatim>\<open>req.user\<close>, \<^verbatim>\<open>requireRole\<close> answers 401
  "Authentication required" and the run is left as it was (the profile store is not
  called); that pair of status and message is not in the specification's table.
\<close>

theorem requireRole_unauthenticated:
  assumes "req_user req = None"
  shows "requireRole supabase roles req s =
           (Responded \<lparr>status = 401,
                        json = [(''success'', JBool False),
                                (''error'', JStr ''Authentication required'')]\<rparr>, s)
       \<and> (401, ''Authentication required'') \<notin> set spec_error_table"
  using assms
  by (simp add: requireRole_def send_def failure_def spec_error_table_def)

theorem requireRole_unauthenticated_witness:
  "requireRole hosted [''ADMIN''] anonymous (registry, []) =
     (Responded \<lparr>status = 401,
                  json = [(''success'', JBool False),
                          (''error'', JStr ''Authentication required'')]\<rparr>, (registry, []))"
proof -
  have "req_user anonymous = None" by (simp add: anonymous_def)
  from requireRole_unauthenticated [OF this, of hosted "[''ADMIN'']" "(registry, [])"]
  show ?thesis by simp
qed

text \<open>
  C4, as amended. For a request with a Bearer token: when the provider call throws,
  \<^verbatim>\<open>requireAuth\<close> answers 500 "Server error during authentication"; when the call
  resolves with an error object, of whatever kind, it answers 401 "Token is not valid".
\<close>

theorem requireAuth_provider_failure:
  assumes "authorization req = Some h" and "startsWith h ''Bearer ''"
  shows "(\<forall>err w'. auth_getUser supabase (extract_token h) (fst s) = (Rejected err, w') \<longrightarrow>
            fst (requireAuth supabase req s) =
              Responded \<lparr>status = 500,
                          json = [(''success'', JBool False),
                                  (''error'', JStr ''Server error during authentication'')]\<rparr>)
       \<and> (\<forall>usr err w'. auth_getUser supabase (extract_token h) (fst s) =
                          (Resolved (usr, Some err), w') \<longrightarrow>
            fst (requireAuth supabase req s) =
              Responded \<lparr>status = 401,
                          json = [(''success'', JBool False),
                                  (''error'', JStr ''Token is not valid'')]\<rparr>)"
  using assms bearer_token(1) [OF assms(2)]
  by (simp add: requireAuth_def invoke_def Let_def send_def failure_def)

theorem requireAuth_provider_failure_witness:
  "fst (requireAuth offline (bearer ''abc123'') (registry, [])) =
     Responded \<lparr>status = 500,
                 json = [(''success'', JBool False),
                         (''error'', JStr ''Server error during authentication'')]\<rparr>
   \<and> fst (requireAuth unavailable (bearer ''abc123'') (registry, [])) =
     Responded \<lparr>status = 401,
                 json = [(''success'', JBool False),
                         (''error'', JStr ''Token is not valid'')]\<rparr>"
proof -
  have a: "authorization (bearer ''abc123'') = Some ''Bearer abc123''"
    by (simp add: bearer_def)
  have sa: "startsWith ''Bearer abc123'' ''Bearer ''"
    by (simp add: startsWith_def)
  have r: "auth_getUser offline (extract_token ''Bearer abc123'') (fst (registry, []))
             = (Rejected fetch_failed, registry)"
    by (simp add: offline_def)
  have e: "auth_getUser unavailable (extract_token ''Bearer abc123'') (fst (registry, []))
             = (Resolved (None, Some gateway_down), registry)"
    by (simp add: unavailable_def offline_def)
  show ?thesis
    using requireAuth_provider_failure [OF a sa, of offline "(registry, [])"]
      requireAuth_provider_failure [OF a sa, of unavailable "(registry, [])"] r e
    by blast
qed

theorem requireAuth_transient_counterexample:
  "auth_getUser unavailable (Some ''abc123'') registry =
     (Resolved (None, Some \<lparr>name = ''AuthRetryableFetchError'', message = Some ''Bad Gateway'',
                             code = Some 502\<rparr>), registry)
   \<and> fst (requireAuth unavailable (bearer ''abc123'') (registry, [])) =
     Responded \<lparr>status = 401,
                 json = [(''success'', JBool False),
                         (''error'', JStr ''Token is not valid'')]\<rparr>
   \<and> fst (requireAuth unavailable (bearer ''abc123'') (registry, [])) \<noteq>
     Responded \<lparr>status = 500,
                 json = [(''success'', JBool False),
                         (''error'', JStr ''Server error during authentication'')]\<rparr>"
  by (simp add: requireAuth_def bearer_def anonymous_def unavailable_def offline_def
        gateway_down_def startsWith_def extract_token_def at_index_def invoke_def
        send_def failure_def)

text \<open>
  C7, as amended. For a header that starts with "Bearer ", the one call to the provider
  carries the part of the header between the prefix and the next space; this is the
  whole of what follows the prefix when that has no space.
\<close>

theorem requireAuth_token:
  assumes "authorization req = Some h" and "startsWith h ''Bearer ''"
  shows "snd (snd (requireAuth supabase req s)) =
           snd s @ [GetUser (Some (takeWhile (\<lambda>c. c \<noteq> CHR '' '') (drop (length ''Bearer '') h)))]
       \<and> (CHR '' '' \<notin> set (drop (length ''Bearer '') h) \<longrightarrow>
           snd (snd (requireAuth supabase req s)) =
             snd s @ [GetUser (Some (drop (length ''Bearer '') h))])"
proof -
  have 1: "snd (snd (requireAuth supabase req s)) =
           snd s @ [GetUser (Some (takeWhile (\<lambda>c. c \<noteq> CHR '' '') (drop (length ''Bearer '') h)))]"
    using assms bearer_token [OF assms(2)]
    by (simp add: requireAuth_def invoke_def Let_def
         split: prod.splits awaited.splits option.splits)
  have "takeWhile (\<lambda>c. c \<noteq> CHR '' '') rest = rest" if "CHR '' '' \<notin> set rest" for rest
    using that by (induction rest) auto
  with 1 show ?thesis by simp
qed

theorem requireAuth_token_witness:
  "snd (snd (requireAuth hosted (bearer ''abc123'') (registry, []))) = [GetUser (Some ''abc123'')]
   \<and> snd (snd (requireAuth hosted (bearer ''abc 123'') (registry, []))) = [GetUser (Some ''abc'')]"
proof -
  have a: "authorization (bearer ''abc123'') = Some ''Bearer abc123''"
    and b: "authorization (bearer ''abc 123'') = Some ''Bearer abc 123''"
    by (simp_all add: bearer_def)
  have sa: "startsWith ''Bearer abc123'' ''Bearer ''" and sb: "startsWith ''Bearer abc 123'' ''Bearer ''"
    by (simp_all add: startsWith_def)
  show ?thesis
    using requireAuth_token [OF a sa, of hosted "(registry, [])"]
      requireAuth_token [OF b sb, of hosted "(registry, [])"]
    by simp
qed

theorem requireAuth_token_counterexample:
  "authorization (bearer ''abc 123'') = Some ''Bearer abc 123''
   \<and> snd (snd (requireAuth hosted (bearer ''abc 123'') (registry, []))) = [GetUser (Some ''abc'')]
   \<and> [GetUser (Some ''abc'')] \<noteq> [GetUser (Some (drop (length ''Bearer '') ''Bearer abc 123''))]"
  by (simp add: requireAuth_def bearer_def anonymous_def hosted_def offline_def startsWith_def
        extract_token_def at_index_def invoke_def)

lemma send_failure: "send c (failure m) = \<lparr>status = c, json = failure m\<rparr>"
  by (simp add: send_def failure_def)

lemma requireAuth_rows:
  "(authorization req = None \<longrightarrow>
      fst (requireAuth supabase req s) =
        Responded \<lparr>status = 401, json = failure ''No token, authorization denied''\<rparr>)
   \<and> (\<forall>h. authorization req = Some h \<and> \<not> startsWith h ''Bearer '' \<longrightarrow>
      fst (requireAuth supabase req s) =
        Responded \<lparr>status = 401, json = failure ''No token, authorization denied''\<rparr>)
   \<and> (\<forall>h err w'. authorization req = Some h \<and> startsWith h ''Bearer '' \<and>
        auth_getUser supabase (extract_token h) (fst s) = (Rejected err, w') \<longrightarrow>
      fst (requireAuth supabase req s) =
        Responded \<lparr>status = 500, json = failure ''Server error during authentication''\<rparr>)
   \<and> (\<forall>h usr error w'. authorization req = Some h \<and> startsWith h ''Bearer '' \<and>
        auth_getUser supabase (extract_token h) (fst s) = (Resolved (usr, error), w') \<and>
        (error \<noteq> None \<or> usr = None) \<longrightarrow>
      fst (requireAuth supabase req s) =
        Responded \<lparr>status = 401, json = failure ''Token is not valid''\<rparr>)
   \<and> (\<forall>h u w'. authorization req = Some h \<and> startsWith h ''Bearer '' \<and>
        auth_getUser supabase (extract_token h) (fst s) = (Resolved (Some u, None), w') \<longrightarrow>
      fst (requireAuth supabase req s) = Next (req\<lparr>req_user := Some u\<rparr>))"
proof -
  have ne: "h \<noteq> []" if "startsWith h ''Bearer ''" for h
    using that by (rule bearer_token(1))
  show ?thesis
    by (auto simp add: requireAuth_def invoke_def Let_def send_failure ne
          split: option.splits)
qed

lemma requireRole_rows:
  "(req_user req = None \<longrightarrow>
      fst (requireRole supabase roles req s) =
        Responded \<lparr>status = 401, json = failure ''Authentication required''\<rparr>)
   \<and> (\<forall>u err w'. req_user req = Some u \<and>
        profiles_select_user_type supabase (user_id u) (fst s) = (Rejected err, w') \<longrightarrow>
      fst (requireRole supabase roles req s) =
        Responded \<lparr>status = 500, json = failure ''Server error during authorization''\<rparr>)
   \<and> (\<forall>u prof error w'. req_user req = Some u \<and>
        profiles_select_user_type supabase (user_id u) (fst s) = (Resolved (prof, error), w') \<and>
        (error \<noteq> None \<or> prof = None) \<longrightarrow>
      fst (requireRole supabase roles req s) =
        Responded \<lparr>status = 403, json = failure ''Access denied. User profile not found.''\<rparr>)
   \<and> (\<forall>u p w'. req_user req = Some u \<and>
        profiles_select_user_type supabase (user_id u) (fst s) = (Resolved (Some p, None), w') \<and>
        roles \<noteq> [] \<and> user_type p \<notin> set roles \<longrightarrow>
      fst (requireRole supabase roles req s) =
        Responded \<lparr>status = 403, json = failure ''Access denied. Insufficient permissions.''\<rparr>)
   \<and> (\<forall>u p w'. req_user req = Some u \<and>
        profiles_select_user_type supabase (user_id u) (fst s) = (Resolved (Some p, None), w') \<and>
        (roles = [] \<or> user_type p \<in> set roles) \<longrightarrow>
      fst (requireRole supabase roles req s) =
        Next (req\<lparr>req_user := Some (u\<lparr>role := Some (user_type p)\<rparr>)\<rparr>))"
  by (auto simp add: requireRole_def invoke_def send_failure split: option.splits)

text \<open>
  C5, as amended. The mapping of the middleware, row by row. \<^verbatim>\<open>requireAuth\<close>: no header,
  or one that does not start with "Bearer ", gives 401 "No token, authorization denied";
  a provider call that throws gives 500 "Server error during authentication"; one that
  resolves with an error or without a user gives 401 "Token is not valid"; otherwise
  \<^verbatim>\<open>next()\<close>. \<^verbatim>\<open>requireRole\<close>: no principal gives 401 "Authentication required"; a
  profile query that throws gives 500 "Server error during authorization"; one that
  resolves with an error or without a row gives 403 "Access denied. User profile not
  found."; a role outside a non-empty allow-list gives 403 "Access denied. Insufficient
  permissions."; otherwise \<^verbatim>\<open>next()\<close>. The 404 middleware gives 404 "Endpoint not found".
  The error handler gives 401 "Invalid token" for a \<^verbatim>\<open>JsonWebTokenError\<close>, 401
  "Token expired" for a \<^verbatim>\<open>TokenExpiredError\<close>, and 500 "Something went wrong!" for every
  other error. The two middlewares give no other pair of status and body.
\<close>

theorem error_mapping:
  "(authorization req = None \<longrightarrow>
      fst (requireAuth supabase req s) =
        Responded \<lparr>status = 401, json = failure ''No token, authorization denied''\<rparr>)
   \<and> (\<forall>h. authorization req = Some h \<and> \<not> startsWith h ''Bearer '' \<longrightarrow>
      fst (requireAuth supabase req s) =
        Responded \<lparr>status = 401, json = failure ''No token, authorization denied''\<rparr>)
   \<and> (\<forall>h err w'. authorization req = Some h \<and> startsWith h ''Bearer '' \<and>
        auth_getUser supabase (extract_token h) (fst s) = (Rejected err, w') \<longrightarrow>
      fst (requireAuth supabase req s) =
        Responded \<lparr>status = 500, json = failure ''Server error during authentication''\<rparr>)
   \<and> (\<forall>h usr error w'. authorization req = Some h \<and> startsWith h ''Bearer '' \<and>
        auth_getUser supabase (extract_token h) (fst s) = (Resolved (usr, error), w') \<and>
        (error \<noteq> None \<or> usr = None) \<longrightarrow>
      fst (requireAuth supabase req s) =
        Responded \<lparr>status = 401, json = failure ''Token is not valid''\<rparr>)
   \<and> (\<forall>h u w'. authorization req = Some h \<and> startsWith h ''Bearer '' \<and>
        auth_getUser supabase (extract_token h) (fst s) = (Resolved (Some u, None), w') \<longrightarrow>
      fst (requireAuth supabase req s) = Next (req\<lparr>req_user := Some u\<rparr>))
   \<and> (req_user req = None \<longrightarrow>
      fst (requireRole supabase roles req s) =
        Responded \<lparr>status = 401, json = failure ''Authentication required''\<rparr>)
   \<and> (\<forall>u err w'. req_user req = Some u \<and>
        profiles_select_user_type supabase (user_id u) (fst s) = (Rejected err, w') \<longrightarrow>
      fst (requireRole supabase roles req s) =
        Responded \<lparr>status = 500, json = failure ''Server error during authorization''\<rparr>)
   \<and> (\<forall>u prof error w'. req_user req = Some u \<and>
        profiles_select_user_type supabase (user_id u) (fst s) = (Resolved (prof, error), w') \<and>
        (error \<noteq> None \<or> prof = None) \<longrightarrow>
      fst (requireRole supabase roles req s) =
        Responded \<lparr>status = 403, json = failure ''Access denied. User profile not found.''\<rparr>)
   \<and> (\<forall>u p w'. req_user req = Some u \<and>
        profiles_select_user_type supabase (user_id u) (fst s) = (Resolved (Some p, None), w') \<and>
        roles \<noteq> [] \<and> user_type p \<notin> set roles \<longrightarrow>
      fst (requireRole supabase roles req s) =
        Responded \<lparr>status = 403, json = failure ''Access denied. Insufficient permissions.''\<rparr>)
   \<and> (\<forall>u p w'. req_user req = Some u \<and>
        profiles_select_user_type supabase (user_id u) (fst s) = (Resolved (Some p, None), w') \<and>
        (roles = [] \<or> user_type p \<in> set roles) \<longrightarrow>
      fst (requireRole supabase roles req s) =
        Next (req\<lparr>req_user := Some (u\<lparr>role := Some (user_type p)\<rparr>)\<rparr>))
   \<and> (case fst (requireAuth supabase req s) of
      Next req' \<Rightarrow> True
    | Responded r \<Rightarrow>
        (status r, json r) \<in>
          {(401, failure ''No token, authorization denied''),
           (401, failure ''Token is not valid''),
           (500, failure ''Server error during authentication'')})
   \<and> (case fst (requireRole supabase roles req s) of
      Next req' \<Rightarrow> True
    | Responded r \<Rightarrow>
        (status r, json r) \<in>
          {(401, failure ''Authentication required''),
           (403, failure ''Access denied. User profile not found.''),
           (403, failure ''Access denied. Insufficient permissions.''),
           (500, failure ''Server error during authorization'')})
   \<and> (status notFound, json notFound) = (404, failure ''Endpoint not found'')
   \<and> (status (errorHandler development err),
        map_of (json (errorHandler development err)) ''error'') =
       (if name err = ''JsonWebTokenError'' then (401, Some (JStr ''Invalid token''))
        else if name err = ''TokenExpiredError'' then (401, Some (JStr ''Token expired''))
        else (500, Some (JStr ''Something went wrong!'')))"
proof -
  have 1: "case fst (requireAuth supabase req s) of
      Next req' \<Rightarrow> True
    | Responded r \<Rightarrow>
        (status r, json r) \<in>
          {(401, failure ''No token, authorization denied''),
           (401, failure ''Token is not valid''),
           (500, failure ''Server error during authentication'')}"
    by (simp add: requireAuth_def invoke_def send_def failure_def Let_def
          split: option.splits prod.splits awaited.splits)
  have 2: "case fst (requireRole supabase roles req s) of
      Next req' \<Rightarrow> True
    | Responded r \<Rightarrow>
        (status r, json r) \<in>
          {(401, failure ''Authentication required''),
           (403, failure ''Access denied. User profile not found.''),
           (403, failure ''Access denied. Insufficient permissions.''),
           (500, failure ''Server error during authorization'')}"
    by (simp add: requireRole_def invoke_def send_def failure_def Let_def
          split: option.splits prod.splits awaited.splits)
  have 3: "(status notFound, json notFound) = (404, failure ''Endpoint not found'')"
    by (simp add: notFound_def send_def failure_def)
  have 4: "(status (errorHandler development err),
        map_of (json (errorHandler development err)) ''error'') =
       (if name err = ''JsonWebTokenError'' then (401, Some (JStr ''Invalid token''))
        else if name err = ''TokenExpiredError'' then (401, Some (JStr ''Token expired''))
        else (500, Some (JStr ''Something went wrong!'')))"
    by (simp add: errorHandler_def send_def failure_def split: option.splits)
  from requireAuth_rows [of req supabase s] requireRole_rows [of req supabase roles s] 1 2 3 4
  show ?thesis by (elim conjE) (intro conjI; assumption)
qed

theorem error_mapping_counterexample:
  "errorHandler False \<lparr>name = ''JsonWebTokenError'', message = Some ''jwt malformed'', code = None\<rparr>
     = \<lparr>status = 401, json = [(''success'', JBool False), (''error'', JStr ''Invalid token'')]\<rparr>
   \<and> (401, ''Invalid token'') \<notin> set spec_error_table"
  by (simp add: errorHandler_def send_def failure_def spec_error_table_def)

theorem error_mapping_witness:
  "fst (requireAuth hosted anonymous (registry, [])) =
     Responded \<lparr>status = 401, json = failure ''No token, authorization denied''\<rparr>
   \<and> fst (requireAuth hosted (bearer ''expired'') (registry, [])) =
     Responded \<lparr>status = 401, json = failure ''Token is not valid''\<rparr>
   \<and> fst (requireAuth offline (bearer ''abc123'') (registry, [])) =
     Responded \<lparr>status = 500, json = failure ''Server error during authentication''\<rparr>
   \<and> fst (requireAuth hosted (bearer ''abc123'') (registry, [])) =
     Next ((bearer ''abc123'')\<lparr>req_user := Some u1\<rparr>)
   \<and> fst (requireRole hosted [] anonymous (registry, [])) =
     Responded \<lparr>status = 401, json = failure ''Authentication required''\<rparr>
   \<and> fst (requireRole offline [] (anonymous\<lparr>req_user := Some u1\<rparr>) (registry, [])) =
     Responded \<lparr>status = 500, json = failure ''Server error during authorization''\<rparr>
   \<and> fst (requireRole hosted [] (anonymous\<lparr>req_user := Some u3\<rparr>) (registry, [])) =
     Responded \<lparr>status = 403, json = failure ''Access denied. User profile not found.''\<rparr>
   \<and> fst (requireRole hosted [''ADMIN''] (anonymous\<lparr>req_user := Some u1\<rparr>) (registry, [])) =
     Responded \<lparr>status = 403, json = failure ''Access denied. Insufficient permissions.''\<rparr>
   \<and> fst (requireRole hosted [''ADMIN''] (anonymous\<lparr>req_user := Some u2\<rparr>) (registry, [])) =
     Next (anonymous\<lparr>req_user := Some (u2\<lparr>role := Some ''ADMIN''\<rparr>)\<rparr>)
   \<and> errorHandler True \<lparr>name = ''TokenExpiredError'', message = Some ''jwt expired'', code = None\<rparr> =
     \<lparr>status = 401, json = failure ''Token expired''\<rparr>
   \<and> errorHandler True \<lparr>name = ''SyntaxError'', message = Some ''Unexpected token'', code = None\<rparr> =
     \<lparr>status = 500,
      json = [(''success'', JBool False), (''error'', JStr ''Something went wrong!''),
              (''message'', JStr ''Unexpected token'')]\<rparr>"
proof -
  have a: "authorization anonymous = None" "req_user anonymous = None"
    by (simp_all add: anonymous_def)
  have h: "authorization (bearer t) = Some (''Bearer '' @ t)" "startsWith (''Bearer '' @ t) ''Bearer ''"
    for t by (simp_all add: bearer_def startsWith_def)
  have g: "auth_getUser hosted (extract_token (''Bearer '' @ ''expired'')) (fst (registry, [])) =
             (Resolved (None, Some \<lparr>name = ''AuthApiError'', message = Some ''invalid JWT'',
                                    code = Some 403\<rparr>), registry)"
    "auth_getUser offline (extract_token (''Bearer '' @ ''abc123'')) (fst (registry, [])) =
       (Rejected fetch_failed, registry)"
    "auth_getUser hosted (extract_token (''Bearer '' @ ''abc123'')) (fst (registry, [])) =
       (Resolved (Some u1, None), registry)"
    by (simp_all add: hosted_def offline_def extract_token_def at_index_def)
  have q: "profiles_select_user_type offline (user_id u1) (fst (registry, [])) =
             (Rejected fetch_failed, registry)"
    "profiles_select_user_type hosted (user_id u3) (fst (registry, [])) =
       (Resolved (None, Some \<lparr>name = ''PostgrestError'',
           message = Some ''JSON object requested, multiple (or no) rows returned'',
           code = Some 406\<rparr>), registry)"
    "profiles_select_user_type hosted (user_id u1) (fst (registry, [])) =
       (Resolved (Some \<lparr>user_type = ''HUSTLER''\<rparr>, None), registry)"
    "profiles_select_user_type hosted (user_id u2) (fst (registry, [])) =
       (Resolved (Some \<lparr>user_type = ''ADMIN''\<rparr>, None), registry)"
    by (simp_all add: hosted_def offline_def select_user_type_def registry_def u1_def u2_def u3_def)
  have e: "errorHandler True \<lparr>name = ''SyntaxError'', message = Some ''Unexpected token'', code = None\<rparr> =
     \<lparr>status = 500,
      json = [(''success'', JBool False), (''error'', JStr ''Something went wrong!''),
              (''message'', JStr ''Unexpected token'')]\<rparr>"
    "errorHandler True \<lparr>name = ''TokenExpiredError'', message = Some ''jwt expired'', code = None\<rparr> =
     \<lparr>status = 401, json = failure ''Token expired''\<rparr>"
    by (simp_all add: errorHandler_def send_def failure_def)
  have u: "req_user (anonymous\<lparr>req_user := Some x\<rparr>) = Some x" for x by simp
  have d: "Some \<lparr>name = ''AuthApiError'', message = Some ''invalid JWT'', code = Some 403\<rparr> \<noteq> None
             \<or> (None :: user option) = None"
    "Some \<lparr>name = ''PostgrestError'',
           message = Some ''JSON object requested, multiple (or no) rows returned'',
           code = Some 406\<rparr> \<noteq> None \<or> (None :: profile option) = None"
    "[''ADMIN''] \<noteq> [] \<and> user_type \<lparr>user_type = ''HUSTLER''\<rparr> \<notin> set [''ADMIN'']"
    "[''ADMIN''] = [] \<or> user_type \<lparr>user_type = ''ADMIN''\<rparr> \<in> set [''ADMIN'']"
    by simp_all
  have 1: "fst (requireAuth hosted anonymous (registry, [])) =
     Responded \<lparr>status = 401, json = failure ''No token, authorization denied''\<rparr>"
    using error_mapping [where req = anonymous and supabase = hosted and s = "(registry, [])"
        and roles = "[]"] a(1)
    by blast
  have 5: "fst (requireRole hosted [] anonymous (registry, [])) =
     Responded \<lparr>status = 401, json = failure ''Authentication required''\<rparr>"
    using error_mapping [where req = anonymous and supabase = hosted and s = "(registry, [])"
        and roles = "[]"] a(2)
    by blast
  have 2: "fst (requireAuth hosted (bearer ''expired'') (registry, [])) =
     Responded \<lparr>status = 401, json = failure ''Token is not valid''\<rparr>"
    using error_mapping [where req = "bearer ''expired''" and supabase = hosted
        and s = "(registry, [])" and roles = "[]"] h [of "''expired''"] g(1)
    by (auto simp del: append.simps)
  have 3: "fst (requireAuth offline (bearer ''abc123'') (registry, [])) =
     Responded \<lparr>status = 500, json = failure ''Server error during authentication''\<rparr>"
    using error_mapping [where req = "bearer ''abc123''" and supabase = offline
        and s = "(registry, [])"] h [of "''abc123''"] g(2)
    by (auto simp del: append.simps)
  have 4: "fst (requireAuth hosted (bearer ''abc123'') (registry, [])) =
     Next ((bearer ''abc123'')\<lparr>req_user := Some u1\<rparr>)"
    using error_mapping [where req = "bearer ''abc123''" and supabase = hosted
        and s = "(registry, [])"] h [of "''abc123''"] g(3)
    by (auto simp del: append.simps)
  have 6: "fst (requireRole offline [] (anonymous\<lparr>req_user := Some u1\<rparr>) (registry, [])) =
     Responded \<lparr>status = 500, json = failure ''Server error during authorization''\<rparr>"
    using error_mapping [where req = "anonymous\<lparr>req_user := Some u1\<rparr>" and supabase = offline
        and s = "(registry, [])" and roles = "[]"] u [of u1] q(1)
    by (auto simp del: append.simps)
  have 7: "fst (requireRole hosted [] (anonymous\<lparr>req_user := Some u3\<rparr>) (registry, [])) =
     Responded \<lparr>status = 403, json = failure ''Access denied. User profile not found.''\<rparr>"
    using error_mapping [where req = "anonymous\<lparr>req_user := Some u3\<rparr>" and supabase = hosted
        and s = "(registry, [])" and roles = "[]"] u [of u3] q(2) d(2)
    by (auto simp del: append.simps)
  have 8: "fst (requireRole hosted [''ADMIN''] (anonymous\<lparr>req_user := Some u1\<rparr>) (registry, [])) =
     Responded \<lparr>status = 403, json = failure ''Access denied. Insufficient permissions.''\<rparr>"
    using error_mapping [where req = "anonymous\<lparr>req_user := Some u1\<rparr>" and supabase = hosted
        and s = "(registry, [])" and roles = "[''ADMIN'']"] u [of u1] q(3) d(3)
    by (auto simp del: append.simps)
  have "fst (requireRole hosted [''ADMIN''] (anonymous\<lparr>req_user := Some u2\<rparr>) (registry, [])) =
       Next (anonymous\<lparr>req_user := Some u2\<rparr>
               \<lparr>req_user := Some (u2\<lparr>role := Some (user_type \<lparr>user_type = ''ADMIN''\<rparr>)\<rparr>)\<rparr>)"
    using error_mapping [where req = "anonymous\<lparr>req_user := Some u2\<rparr>" and supabase = hosted
        and s = "(registry, [])" and roles = "[''ADMIN'']"] u [of u2] q(4) d(4)
    by (auto simp del: append.simps)
  then have 9: "fst (requireRole hosted [''ADMIN''] (anonymous\<lparr>req_user := Some u2\<rparr>) (registry, [])) =
     Next (anonymous\<lparr>req_user := Some (u2\<lparr>role := Some ''ADMIN''\<rparr>)\<rparr>)"
    by simp
  from 1 2 3 4 5 6 7 8 9 e show ?thesis by simp
qed

section \<open>Validation before the provider\<close>

lemma validate_rejects:
  "errors \<noteq> [] \<Longrightarrow>
     validate errors req =
       Responded \<lparr>status = 400,
                   json = [(''success'', JBool False), (''errors'', JArr (map error_json errors))]\<rparr>"
  by (simp add: validate_def send_def)

text \<open>
  C8. On signup, signin and reset-password, a body that fails a validator is answered
  400 with the list of validation errors, and the run is left as it was: no call reaches
  the provider. A malformed email fails on all three routes; a password shorter than 6,
  an empty first or last name, and a user type other than CUSTOMER and HUSTLER fail on
  signup.
\<close>

theorem validation_before_provider:
  "(signup_validators isEmail (req_body req) \<noteq> [] \<longrightarrow>
      post_signup isEmail supabase req s =
        (\<lparr>status = 400,
          json = [(''success'', JBool False),
                  (''errors'', JArr (map error_json (signup_validators isEmail (req_body req))))]\<rparr>,
         s))
   \<and> (signin_validators isEmail (req_body req) \<noteq> [] \<longrightarrow>
      post_signin isEmail supabase req s =
        (\<lparr>status = 400,
          json = [(''success'', JBool False),
                  (''errors'', JArr (map error_json (signin_validators isEmail (req_body req))))]\<rparr>,
         s))
   \<and> (reset_validators isEmail (req_body req) \<noteq> [] \<longrightarrow>
      post_reset_password isEmail supabase req s =
        (\<lparr>status = 400,
          json = [(''success'', JBool False),
                  (''errors'', JArr (map error_json (reset_validators isEmail (req_body req))))]\<rparr>,
         s))
   \<and> (\<not> isEmail (field_str (b_email (req_body req))) \<longrightarrow>
        signup_validators isEmail (req_body req) \<noteq> []
      \<and> signin_validators isEmail (req_body req) \<noteq> []
      \<and> reset_validators isEmail (req_body req) \<noteq> [])
   \<and> (length (field_str (b_password (req_body req))) < 6 \<longrightarrow>
        signup_validators isEmail (req_body req) \<noteq> [])
   \<and> (field_str (b_firstName (req_body req)) = [] \<or> field_str (b_lastName (req_body req)) = [] \<longrightarrow>
        signup_validators isEmail (req_body req) \<noteq> [])
   \<and> (field_str (b_userType (req_body req)) \<notin> {''CUSTOMER'', ''HUSTLER''} \<longrightarrow>
        signup_validators isEmail (req_body req) \<noteq> [])"
proof -
  have 1: "signup_validators isEmail (req_body req) \<noteq> [] \<longrightarrow>
      post_signup isEmail supabase req s =
        (\<lparr>status = 400,
          json = [(''success'', JBool False),
                  (''errors'', JArr (map error_json (signup_validators isEmail (req_body req))))]\<rparr>,
         s)"
    by (simp add: post_signup_def validate_rejects)
  have 2: "signin_validators isEmail (req_body req) \<noteq> [] \<longrightarrow>
      post_signin isEmail supabase req s =
        (\<lparr>status = 400,
          json = [(''success'', JBool False),
                  (''errors'', JArr (map error_json (signin_validators isEmail (req_body req))))]\<rparr>,
         s)"
    by (simp add: post_signin_def validate_rejects)
  have 3: "reset_validators isEmail (req_body req) \<noteq> [] \<longrightarrow>
      post_reset_password isEmail supabase req s =
        (\<lparr>status = 400,
          json = [(''success'', JBool False),
                  (''errors'', JArr (map error_json (reset_validators isEmail (req_body req))))]\<rparr>,
         s)"
    by (simp add: post_reset_password_def validate_rejects)
  have 4: "\<not> isEmail (field_str (b_email (req_body req))) \<longrightarrow>
        signup_validators isEmail (req_body req) \<noteq> []
      \<and> signin_validators isEmail (req_body req) \<noteq> []
      \<and> reset_validators isEmail (req_body req) \<noteq> []"
    by (simp add: signup_validators_def signin_validators_def reset_validators_def check_def)
  have 5: "length (field_str (b_password (req_body req))) < 6 \<longrightarrow>
        signup_validators isEmail (req_body req) \<noteq> []"
    by (simp add: signup_validators_def check_def)
  have 6: "field_str (b_firstName (req_body req)) = [] \<or> field_str (b_lastName (req_body req)) = [] \<longrightarrow>
        signup_validators isEmail (req_body req) \<noteq> []"
    by (auto simp add: signup_validators_def check_def)
  have 7: "field_str (b_userType (req_body req)) \<notin> {''CUSTOMER'', ''HUSTLER''} \<longrightarrow>
        signup_validators isEmail (req_body req) \<noteq> []"
    by (simp add: signup_validators_def check_def)
  from 1 2 3 4 5 6 7 show ?thesis by blast
qed





theorem validation_before_provider_witness:
  "post_signup has_at hosted (form ''ada.example.com'' ''pw'' ''Ada'' '''' ''ADMIN'') (registry, []) =
     (\<lparr>status = 400,
       json = [(''success'', JBool False),
               (''errors'',
                  JArr (map error_json
                    [(''email'', Some ''ada.example.com'', ''Please include a valid email''),
                     (''password'', Some ''pw'', ''Please enter a password with 6 or more characters''),
                     (''lastName'', Some '''', ''Last name is required''),
                     (''userType'', Some ''ADMIN'', ''User type is required'')]))]\<rparr>,
      (registry, []))
   \<and> post_signin has_at hosted (form ''ada.example.com'' ''pw'' ''Ada'' '''' ''ADMIN'') (registry, []) =
     (\<lparr>status = 400,
       json = [(''success'', JBool False),
               (''errors'', JArr (map error_json [(''email'', Some ''ada.example.com'', ''Please include a valid email'')]))]\<rparr>,
      (registry, []))
   \<and> post_reset_password has_at hosted (form ''ada.example.com'' ''pw'' ''Ada'' '''' ''ADMIN'')
        (registry, []) =
     (\<lparr>status = 400,
       json = [(''success'', JBool False),
               (''errors'', JArr (map error_json [(''email'', Some ''ada.example.com'', ''Please include a valid email'')]))]\<rparr>,
      (registry, []))"
proof -
  have b: "req_body (form ''ada.example.com'' ''pw'' ''Ada'' '''' ''ADMIN'') =
             \<lparr>b_email = Some ''ada.example.com'', b_password = Some ''pw'', b_firstName = Some ''Ada'',
              b_lastName = Some '''', b_userType = Some ''ADMIN''\<rparr>"
    by (simp add: form_def)
  have 1: "signup_validators has_at (req_body (form ''ada.example.com'' ''pw'' ''Ada'' '''' ''ADMIN'')) =
             [(''email'', Some ''ada.example.com'', ''Please include a valid email''),
              (''password'', Some ''pw'', ''Please enter a password with 6 or more characters''),
              (''lastName'', Some '''', ''Last name is required''),
              (''userType'', Some ''ADMIN'', ''User type is required'')]"
    by (simp add: b signup_validators_def check_def field_str_def has_at_def)
  have 2: "signin_validators has_at (req_body (form ''ada.example.com'' ''pw'' ''Ada'' '''' ''ADMIN'')) =
             [(''email'', Some ''ada.example.com'', ''Please include a valid email'')]"
    by (simp add: b signin_validators_def check_def field_str_def has_at_def)
  have 3: "reset_validators has_at (req_body (form ''ada.example.com'' ''pw'' ''Ada'' '''' ''ADMIN'')) =
             [(''email'', Some ''ada.example.com'', ''Please include a valid email'')]"
    by (simp add: b reset_validators_def check_def field_str_def has_at_def)
  show ?thesis
    using validation_before_provider
      [of has_at "form ''ada.example.com'' ''pw'' ''Ada'' '''' ''ADMIN''" hosted "(registry, [])"]
    unfolding 1 2 3 by simp
qed

section \<open>Sign-up and the profile row\<close>

text \<open>
  C9. Once the provider has created the account, \<^verbatim>\<open>signUp\<close> always goes on to insert
  the profile row, and makes no call after that. When the insert throws or resolves with
  an error, \<^verbatim>\<open>signUp\<close> returns the failure with the error's message, and the world is
  the one the failed insert left: nothing removes the account.
\<close>

theorem signUp_not_atomic:
  assumes "params = \<lparr>su_email = email, su_password = password, su_first_name = firstName,
                      su_last_name = lastName, su_user_type = userType\<rparr>"
    and "auth_signUp supabase params (fst s) = (Resolved (authData, None), w1)"
    and "data_user authData = Some u"
    and "row = \<lparr>row_id = user_id u, row_email = email, row_first_name = Some firstName,
                row_last_name = Some lastName, row_user_type = userType\<rparr>"
    and "profiles_insert supabase row w1 = (inserted, w2)"
  shows "snd (signUp supabase email password firstName lastName userType s) =
           (w2, snd s @ [SignUp params, InsertProfile row])
       \<and> (inserted = Rejected err \<or> (\<exists>d. inserted = Resolved (d, Some err)) \<longrightarrow>
            fst (signUp supabase email password firstName lastName userType s) =
              Failure (message_or err ''Failed to sign up user''))"
  using assms
  by (auto simp add: signUp_def invoke_def Let_def split: awaited.splits option.splits prod.splits)

lemma create_account_ada:
  "auth_signUp hosted ada (fst (registry, [])) =
     (Resolved
        (\<lparr>data_user = Some \<lparr>user_id = ''id-ada@example.com'', user_email = ''ada@example.com'',
                             email_confirmed_at = None, role = None\<rparr>,
          data_session = None\<rparr>, None),
      registry_with_ada)"
  by (simp add: hosted_def offline_def create_account_def ada_def registry_def
        handle_new_user_def user_role_def Let_def registry_with_ada_def ada_account_def
        ada_row_def)

lemma insert_profile_ada:
  "profiles_insert hosted ada_row registry_with_ada =
     (Resolved
        (JNull,
         Some (pg_error ''duplicate key value violates unique constraint \"profiles_pkey\"'')),
      registry_with_ada)"
  by (simp add: hosted_def offline_def insert_profile_def registry_with_ada_def registry_def
        ada_row_def user_role_def)

theorem signUp_not_atomic_witness:
  "signUp hosted ''ada@example.com'' ''secret1'' ''Ada'' ''Byron'' ''CUSTOMER'' (registry, []) =
     (Failure ''duplicate key value violates unique constraint \"profiles_pkey\"'',
      (registry_with_ada, [SignUp ada, InsertProfile ada_row]))
   \<and> ada_account \<in> set (auth_users registry_with_ada)
   \<and> ada_account \<notin> set (auth_users registry)"
proof -
  have a: "ada = \<lparr>su_email = ''ada@example.com'', su_password = ''secret1'',
                   su_first_name = ''Ada'', su_last_name = ''Byron'',
                   su_user_type = ''CUSTOMER''\<rparr>"
    by (simp add: ada_def)
  have r: "ada_row =
             \<lparr>row_id = user_id \<lparr>user_id = ''id-ada@example.com'', user_email = ''ada@example.com'',
                                 email_confirmed_at = None, role = None\<rparr>,
              row_email = ''ada@example.com'', row_first_name = Some ''Ada'',
              row_last_name = Some ''Byron'', row_user_type = ''CUSTOMER''\<rparr>"
    by (simp add: ada_row_def)
  have u: "data_user \<lparr>data_user = Some \<lparr>user_id = ''id-ada@example.com'',
                                         user_email = ''ada@example.com'',
                                         email_confirmed_at = None, role = None\<rparr>,
                      data_session = None\<rparr> =
             Some \<lparr>user_id = ''id-ada@example.com'', user_email = ''ada@example.com'',
                   email_confirmed_at = None, role = None\<rparr>"
    by simp
  have m: "message_or (pg_error ''duplicate key value violates unique constraint \"profiles_pkey\"'')
             ''Failed to sign up user'' =
           ''duplicate key value violates unique constraint \"profiles_pkey\"''"
    by (simp add: message_or_def pg_error_def)
  have x: "ada_account \<in> set (auth_users registry_with_ada)"
    by (simp add: registry_with_ada_def)
  have y: "ada_account \<notin> set (auth_users registry)"
    by (simp add: registry_def ada_account_def)
  show ?thesis
    using signUp_not_atomic [OF a create_account_ada u r insert_profile_ada,
        of "pg_error ''duplicate key value violates unique constraint \"profiles_pkey\"''"]
      m x y
    by (simp add: prod_eq_iff)
qed

section \<open>The response envelope\<close>

lemma signup_handler_shapes:
  "(\<exists>m. fst (signup_handler supabase req s) = \<lparr>status = 400, json = failure m\<rparr>)
   \<or> (\<exists>d. fst (signup_handler supabase req s) =
          \<lparr>status = 201,
           json = [(''success'', JBool True),
                   (''message'', JStr ''User registered successfully''),
                   (''data'', JObj d)]\<rparr>)"
proof (cases "b_email (req_body req)")
  case None
  then show ?thesis by (simp add: signup_handler_def send_def failure_def)
next
  case e: (Some email)
  show ?thesis
  proof (cases "b_password (req_body req)")
    case None
    then show ?thesis using e by (simp add: signup_handler_def send_def failure_def)
  next
    case p: (Some password)
    show ?thesis
    proof (cases "b_firstName (req_body req)")
      case None
      then show ?thesis using e p by (simp add: signup_handler_def send_def failure_def)
    next
      case f: (Some firstName)
      show ?thesis
      proof (cases "b_lastName (req_body req)")
        case None
        then show ?thesis using e p f by (simp add: signup_handler_def send_def failure_def)
      next
        case l: (Some lastName)
        show ?thesis
        proof (cases "b_userType (req_body req)")
          case None
          then show ?thesis using e p f l by (simp add: signup_handler_def send_def failure_def)
        next
          case t: (Some userType)
          obtain res s' where r: "signUp supabase email password firstName lastName userType s = (res, s')"
            by (cases "signUp supabase email password firstName lastName userType s")
          show ?thesis
            using e p f l t r
            by (cases res) (auto simp add: signup_handler_def send_def failure_def)
        qed
      qed
    qed
  qed
qed


lemma post_signup_shapes:
  "(\<exists>m. fst (post_signup isEmail supabase req s) = \<lparr>status = 400, json = failure m\<rparr>)
   \<or> (\<exists>es. fst (post_signup isEmail supabase req s) =
          \<lparr>status = 400, json = [(''success'', JBool False), (''errors'', JArr es)]\<rparr>)
   \<or> (\<exists>d. fst (post_signup isEmail supabase req s) =
          \<lparr>status = 201,
           json = [(''success'', JBool True),
                   (''message'', JStr ''User registered successfully''),
                   (''data'', JObj d)]\<rparr>)"
proof (cases "signup_validators isEmail (req_body req) = []")
  case True
  then have "post_signup isEmail supabase req s = signup_handler supabase req s"
    by (simp add: post_signup_def validate_def)
  then show ?thesis using signup_handler_shapes [of supabase req s] by auto
next
  case False
  then show ?thesis by (simp add: post_signup_def validate_def send_def)
qed

text \<open>
  C6, as amended. Every response of a route has a boolean \<^verbatim>\<open>success\<close>, true exactly
  when the status is below 400. A failure body has a string \<^verbatim>\<open>error\<close>, except the
  validation rejection (status 400), which has \<^verbatim>\<open>errors\<close>, an array, and no
  \<^verbatim>\<open>error\<close>. A success body has \<^verbatim>\<open>data\<close>, an object, on signup, signin, session
  and user; on health, signout and reset-password it has \<^verbatim>\<open>message\<close> and no
  \<^verbatim>\<open>data\<close>. The body of the error handler has \<^verbatim>\<open>success: false\<close> and a string
  \<^verbatim>\<open>error\<close>.
\<close>

theorem response_envelope:
  assumes "res = fst (app isEmail now supabase r req s)"
  shows "map_of (json res) ''success'' = Some (JBool (status res < 400))
       \<and> (400 \<le> status res \<longrightarrow>
            (\<exists>m. map_of (json res) ''error'' = Some (JStr m))
          \<or> (status res = 400 \<and> map_of (json res) ''error'' = None
               \<and> (\<exists>es. map_of (json res) ''errors'' = Some (JArr es))))
       \<and> (status res < 400 \<longrightarrow>
            (r \<in> {Signup, Signin, Session, CurrentUser} \<longrightarrow>
               (\<exists>d. map_of (json res) ''data'' = Some (JObj d)))
          \<and> (r \<in> {Health, Signout, ResetPassword} \<longrightarrow>
               map_of (json res) ''data'' = None
             \<and> (\<exists>m. map_of (json res) ''message'' = Some (JStr m))))
       \<and> map_of (json (errorHandler development err)) ''success'' = Some (JBool False)
       \<and> (\<exists>m. map_of (json (errorHandler development err)) ''error'' = Some (JStr m))"
proof -
  have handler:
    "map_of (json (errorHandler development err)) ''success'' = Some (JBool False)
     \<and> (\<exists>m. map_of (json (errorHandler development err)) ''error'' = Some (JStr m))"
    by (simp add: errorHandler_def send_def failure_def)
  have routes:
    "map_of (json res) ''success'' = Some (JBool (status res < 400))
       \<and> (400 \<le> status res \<longrightarrow>
            (\<exists>m. map_of (json res) ''error'' = Some (JStr m))
          \<or> (status res = 400 \<and> map_of (json res) ''error'' = None
               \<and> (\<exists>es. map_of (json res) ''errors'' = Some (JArr es))))
       \<and> (status res < 400 \<longrightarrow>
            (r \<in> {Signup, Signin, Session, CurrentUser} \<longrightarrow>
               (\<exists>d. map_of (json res) ''data'' = Some (JObj d)))
          \<and> (r \<in> {Health, Signout, ResetPassword} \<longrightarrow>
               map_of (json res) ''data'' = None
             \<and> (\<exists>m. map_of (json res) ''message'' = Some (JStr m))))"
  proof (cases r)
    case Health
    then show ?thesis using assms by (simp add: app_def health_def send_def)
  next
    case Signup
    then have "res = fst (post_signup isEmail supabase req s)"
      using assms by (simp add: app_def)
    with post_signup_shapes [of isEmail supabase req s] Signup show ?thesis
      by (auto simp add: failure_def)
  next
    case Signin
    then show ?thesis using assms
      by (simp add: app_def post_signin_def validate_def signin_handler_def send_def failure_def
            split: prod.splits result.splits)
  next
    case Signout
    then show ?thesis using assms
      by (simp add: app_def post_signout_def send_def failure_def
            split: prod.splits result.splits)
  next
    case Session
    then show ?thesis using assms
      by (simp add: app_def get_session_def getSession_def invoke_def send_def failure_def
            split: prod.splits result.splits awaited.splits option.splits)
  next
    case CurrentUser
    then show ?thesis using assms
      by (simp add: app_def get_user_def getUser_def invoke_def send_def failure_def
            split: prod.splits result.splits awaited.splits option.splits)
  next
    case ResetPassword
    then show ?thesis using assms
      by (simp add: app_def post_reset_password_def validate_def reset_handler_def send_def
            failure_def split: prod.splits result.splits)
  next
    case Unmatched
    then show ?thesis using assms by (simp add: app_def notFound_def send_def failure_def)
  qed
  from routes handler show ?thesis by blast
qed

theorem response_envelope_witness:
  "fst (app has_at ''2026-11-03T09:00:00.000Z'' hosted Signout anonymous (registry, [])) =
     \<lparr>status = 200,
      json = [(''success'', JBool True), (''message'', JStr ''User logged out successfully'')]\<rparr>
   \<and> fst (app has_at ''2026-11-03T09:00:00.000Z'' hosted Session anonymous (registry, [])) =
     \<lparr>status = 401, json = [(''success'', JBool False), (''error'', JStr ''fetch failed'')]\<rparr>"
  using response_envelope [OF refl, of has_at "''2026-11-03T09:00:00.000Z''" hosted Signout
      anonymous "(registry, [])" True fetch_failed]
  by (simp add: app_def post_signout_def signOut_def get_session_def getSession_def invoke_def
        hosted_def offline_def send_def failure_def message_or_def fetch_failed_def)

theorem response_envelope_counterexample:
  "status (fst (app has_at ''2026-11-03T09:00:00.000Z'' hosted Signup anonymous (registry, []))) = 400
   \<and> map_of (json (fst (app has_at ''2026-11-03T09:00:00.000Z'' hosted Signup anonymous
         (registry, [])))) ''success'' = Some (JBool False)
   \<and> map_of (json (fst (app has_at ''2026-11-03T09:00:00.000Z'' hosted Signup anonymous
         (registry, [])))) ''error'' = None
   \<and> fst (app has_at ''2026-11-03T09:00:00.000Z'' hosted Signout anonymous (registry, [])) =
     \<lparr>status = 200,
      json = [(''success'', JBool True), (''message'', JStr ''User logged out successfully'')]\<rparr>"
  by (simp add: app_def post_signup_def validate_def signup_validators_def check_def
        field_str_def has_at_def anonymous_def post_signout_def signOut_def invoke_def
        hosted_def offline_def send_def)

end
